theory Spec2Isabelle
  imports Complex_Main
begin

section \<open>The vocabulary drill of \<^verbatim>\<open>src/App.jsx\<close>\<close>

text \<open>
  The component \<^verbatim>\<open>VocabularyApp\<close> keeps nine state variables and changes them in
  event handlers. Each handler is modelled as a function from the state it reads to the
  state its setter calls leave behind; a handler that throws returns \<open>Inl\<close> of the error
  and leaves the state as it was. A button calls the handler of the current render; the
  listener for the arrow keys calls handlers of the render in which the cursor last
  changed, and the component with its listener is modelled for that.
\<close>

subsection \<open>JavaScript values\<close>

text \<open>
  A spreadsheet cell, as the decoding library hands it over: a hole of the row
  (\<^verbatim>\<open>undefined\<close>), a string, a number or a boolean. Only whether a number is zero
  matters to the program, so numeric cells are integers here. A string is a list of 8-bit
  characters, read as the code units U+0000 to U+00FF.
\<close>

datatype jsval = JUndefined | JString string | JNumber int | JBoolean bool

datatype error = TypeError

text \<open>The truthiness test behind \<^verbatim>\<open>&&\<close> and \<^verbatim>\<open>||\<close>.\<close>

fun truthy :: "jsval \<Rightarrow> bool" where
  "truthy JUndefined = False"
| "truthy (JString s) = (s \<noteq> [])"
| "truthy (JNumber n) = (n \<noteq> 0)"
| "truthy (JBoolean b) = b"

type_synonym row = "jsval list"

text \<open>\<^verbatim>\<open>row[i]\<close>: reading past the end of an array gives \<^verbatim>\<open>undefined\<close>.\<close>

definition cell :: "row \<Rightarrow> nat \<Rightarrow> jsval" where
  "cell r i = (if i < length r then r ! i else JUndefined)"

subsection \<open>String operations of the host language\<close>

abbreviation CR :: char where "CR \<equiv> CHR 0x0D"
abbreviation LF :: char where "LF \<equiv> CHR 0x0A"

text \<open>\<^verbatim>\<open>s.includes('\r\n')\<close>\<close>

fun includes_crlf :: "string \<Rightarrow> bool" where
  "includes_crlf (c # d # cs) = ((c = CR \<and> d = LF) \<or> includes_crlf (d # cs))"
| "includes_crlf [c] = False"
| "includes_crlf [] = False"

text \<open>\<^verbatim>\<open>s.split('\r\n')\<close>: the pieces between the separators, scanned from the left.\<close>

fun split_crlf :: "string \<Rightarrow> string list" where
  "split_crlf (c # d # cs) =
     (if c = CR \<and> d = LF then [] # split_crlf cs
      else (case split_crlf (d # cs) of [] \<Rightarrow> [[c]] | p # ps \<Rightarrow> (c # p) # ps))"
| "split_crlf [c] = [[c]]"
| "split_crlf [] = [[]]"

text \<open>\<^verbatim>\<open>pieces[1]\<close>: the second element, \<^verbatim>\<open>undefined\<close> when there is none.\<close>

fun second :: "string list \<Rightarrow> jsval" where
  "second (p # q # ps) = JString q"
| "second [p] = JUndefined"
| "second [] = JUndefined"

text \<open>
  \<^verbatim>\<open>toLowerCase\<close> on the code units below 256: the letters A to Z and the
  capital letters U+00C0 to U+00DE (U+00D7, the multiplication sign, is not one) move up
  by 32; every other unit is its own lower case.
\<close>

definition toLowerCase_char :: "char \<Rightarrow> char" where
  "toLowerCase_char c =
     (let n = (of_char c :: nat)
      in if (65 \<le> n \<and> n \<le> 90) \<or> (192 \<le> n \<and> n \<le> 222 \<and> n \<noteq> 215)
         then char_of (n + 32) else c)"

definition toLowerCase :: "string \<Rightarrow> string" where
  "toLowerCase s = map toLowerCase_char s"

text \<open>
  \<^verbatim>\<open>trim\<close> removes white space and line terminators from both ends. Below 256
  these are tab, line feed, vertical tab, form feed, carriage return, space and the
  no-break space.
\<close>

definition is_space :: "char \<Rightarrow> bool" where
  "is_space c = ((of_char c :: nat) \<in> {9, 10, 11, 12, 13, 32, 160})"

definition trim :: "string \<Rightarrow> string" where
  "trim s = rev (dropWhile is_space (rev (dropWhile is_space s)))"

subsection \<open>Exercises and the row parser\<close>

text \<open>
  The object pushed per row (lines 35 to 43). The field \<^verbatim>\<open>id\<close> is \<open>id_field\<close>
  here. The empty object \<^verbatim>\<open>{}\<close> has no property, so every read of it gives
  \<^verbatim>\<open>undefined\<close>.
\<close>

record exercise =
  id_field :: jsval
  word :: jsval
  hint :: jsval
  sentence :: jsval
  blankedWord :: jsval
  meaning :: jsval
  pronunciation :: jsval

definition empty_object :: exercise where
  "empty_object =
     \<lparr>id_field = JUndefined, word = JUndefined, hint = JUndefined, sentence = JUndefined,
      blankedWord = JUndefined, meaning = JUndefined, pronunciation = JUndefined\<rparr>"

text \<open>
  Lines 30 to 33: \<^verbatim>\<open>let sentence = row[8]; if (sentence && sentence.includes('\r\n'))
  sentence = sentence.split('\r\n')[1]\<close>. A truthy value that is no string (a non-zero
  number, \<^verbatim>\<open>true\<close>) has no method \<^verbatim>\<open>includes\<close>, and the call throws.
\<close>

definition derive_sentence :: "row \<Rightarrow> error + jsval" where
  "derive_sentence r =
     (let s = cell r 8
      in if truthy s
         then (case s of
                 JString q \<Rightarrow> if includes_crlf q then Inr (second (split_crlf q)) else Inr s
               | JUndefined \<Rightarrow> Inl TypeError
               | JNumber n \<Rightarrow> Inl TypeError
               | JBoolean b \<Rightarrow> Inl TypeError)
         else Inr s)"

text \<open>The body of the loop for one row that has cells (lines 30 to 43).\<close>

definition make_exercise :: "row \<Rightarrow> error + exercise" where
  "make_exercise r =
     (case derive_sentence r of
        Inl e \<Rightarrow> Inl e
      | Inr s \<Rightarrow>
          Inr \<lparr>id_field = cell r 0, word = cell r 5, hint = cell r 7,
               sentence = (if truthy s then s else cell r 4),
               blankedWord = cell r 6, meaning = cell r 3, pronunciation = cell r 2\<rparr>)"

text \<open>
  The loop of lines 26 to 44 over the rows from index 1 on, with the array
  \<^verbatim>\<open>exercisesData\<close> as accumulator.
\<close>

fun parse_loop :: "row list \<Rightarrow> exercise list \<Rightarrow> error + exercise list" where
  "parse_loop [] acc = Inr acc"
| "parse_loop (r # rs) acc =
     (if length r = 0 then parse_loop rs acc
      else (case make_exercise r of
              Inl e \<Rightarrow> Inl e
            | Inr ex \<Rightarrow> parse_loop rs (acc @ [ex])))"

definition exercisesData :: "row list \<Rightarrow> error + exercise list" where
  "exercisesData rawData = parse_loop (drop 1 rawData) []"

subsection \<open>The state of the component\<close>

record score =
  correct :: nat
  total :: nat

datatype mode = Normal | Review

text \<open>Lines 6 to 14. \<open>isCorrect\<close> is \<^verbatim>\<open>null\<close> (\<open>None\<close>), true or false.\<close>

record state =
  exercises :: "exercise list"
  currentExerciseIndex :: int
  userAnswer :: string
  feedback :: string
  isCorrect :: "bool option"
  showMeaning :: bool
  loading :: bool
  stats :: score
  exerciseMode :: mode

definition initial_state :: state where
  "initial_state =
     \<lparr>exercises = [], currentExerciseIndex = 0, userAnswer = [], feedback = [],
      isCorrect = None, showMeaning = False, loading = True,
      stats = \<lparr>correct = 0, total = 0\<rparr>, exerciseMode = Normal\<rparr>"

text \<open>
  What the component renders (lines 203 to 207): the loading notice while \<open>loading\<close>
  holds, else the review card in mode \<open>Review\<close>, else the current exercise.
\<close>

datatype screen = LoadingScreen | ReviewScreen | ActiveScreen

definition screen_of :: "state \<Rightarrow> screen" where
  "screen_of st =
     (if loading st then LoadingScreen
      else if exerciseMode st = Review then ReviewScreen else ActiveScreen)"

text \<open>
  Lines 16 to 50. The decoding of the file into \<open>rawData\<close> and the shuffle are the
  libraries' work: the rows and the shuffle are parameters.
\<close>

definition loadData :: "(exercise list \<Rightarrow> exercise list) \<Rightarrow> row list \<Rightarrow> state \<Rightarrow> error + state" where
  "loadData shuffle rawData st =
     (case exercisesData rawData of
        Inl e \<Rightarrow> Inl e
      | Inr exs \<Rightarrow>
          Inr (st\<lparr>exercises := shuffle exs, currentExerciseIndex := 0, loading := False\<rparr>))"

text \<open>Line 63: \<^verbatim>\<open>exercises[currentExerciseIndex] || {}\<close>. An object is always truthy.\<close>

definition currentExercise :: "state \<Rightarrow> exercise" where
  "currentExercise st =
     (let i = currentExerciseIndex st
      in if 0 \<le> i \<and> i < int (length (exercises st)) then exercises st ! nat i
         else empty_object)"

text \<open>The text field's \<^verbatim>\<open>onChange\<close> (line 267).\<close>

definition setUserAnswer :: "string \<Rightarrow> state \<Rightarrow> state" where
  "setUserAnswer v st = st\<lparr>userAnswer := v\<rparr>"

text \<open>
  The two messages of lines 71 to 73. The success message of the source ends in a
  pictograph that lies outside the character range of this model; the message here
  stops before it.
\<close>

definition correct_feedback :: string where
  "correct_feedback = ''Correct! ''"

definition not_quite_feedback :: "string \<Rightarrow> string" where
  "not_quite_feedback w = ''Not quite. The correct answer is \"'' @ w @ ''\"''"

text \<open>
  Lines 65 to 79. \<^verbatim>\<open>currentExercise.word.toLowerCase()\<close> throws a TypeError
  when the word is \<^verbatim>\<open>undefined\<close> (no property can be read of it) and when it is a
  number or a boolean (they have no such method); no setter has run by then.
\<close>

definition checkAnswer :: "state \<Rightarrow> error + state" where
  "checkAnswer st =
     (case word (currentExercise st) of
        JString w \<Rightarrow>
          (let correctAnswer = trim (toLowerCase w);
               userInput = trim (toLowerCase (userAnswer st));
               isAnswerCorrect = (correctAnswer = userInput)
           in Inr (st\<lparr>isCorrect := Some isAnswerCorrect,
                      feedback := (if isAnswerCorrect then correct_feedback
                                   else not_quite_feedback w),
                      stats := \<lparr>correct = correct (stats st) + (if isAnswerCorrect then 1 else 0),
                                total = total (stats st) + 1\<rparr>\<rparr>))
      | JUndefined \<Rightarrow> Inl TypeError
      | JNumber n \<Rightarrow> Inl TypeError
      | JBoolean b \<Rightarrow> Inl TypeError)"

text \<open>Lines 99 to 104.\<close>

definition resetExerciseState :: "state \<Rightarrow> state" where
  "resetExerciseState st =
     st\<lparr>userAnswer := [], feedback := [], isCorrect := None, showMeaning := False\<rparr>"

text \<open>Lines 81 to 90. \<^verbatim>\<open>exercises.length - 1\<close> is \<open>-1\<close> for the empty array.\<close>

definition nextExercise :: "state \<Rightarrow> state" where
  "nextExercise st =
     (if currentExerciseIndex st < int (length (exercises st)) - 1
      then resetExerciseState (st\<lparr>currentExerciseIndex := currentExerciseIndex st + 1\<rparr>)
      else st\<lparr>exerciseMode := Review\<rparr>)"

text \<open>Lines 92 to 97.\<close>

definition prevExercise :: "state \<Rightarrow> state" where
  "prevExercise st =
     (if currentExerciseIndex st > 0
      then resetExerciseState (st\<lparr>currentExerciseIndex := currentExerciseIndex st - 1\<rparr>)
      else st)"

text \<open>Lines 106 to 113.\<close>

definition restartExercises :: "state \<Rightarrow> state" where
  "restartExercises st =
     resetExerciseState
       (st\<lparr>exercises := [], currentExerciseIndex := 0,
           stats := \<lparr>correct = 0, total = 0\<rparr>, exerciseMode := Normal\<rparr>)
       \<lparr>loading := True\<rparr>"

text \<open>Lines 115 to 117.\<close>

definition toggleMeaning :: "state \<Rightarrow> state" where
  "toggleMeaning st = st\<lparr>showMeaning := \<not> showMeaning st\<rparr>"

subsection \<open>The key listener and the renders\<close>

text \<open>
  The effect of lines 134 to 147 registers a listener for key presses on the window,
  which stays registered whatever the component renders. The effect runs after the first
  render, and again after a render only if the cursor differs from the cursor of the
  render before (its dependencies are \<^verbatim>\<open>[currentExerciseIndex]\<close>). So the listener
  calls the \<^verbatim>\<open>nextExercise\<close> and \<^verbatim>\<open>prevExercise\<close> of the render in which the cursor
  last changed: they read the exercises and the cursor of that render, and their setters
  write the current state. A button calls the handler of the current render.
\<close>

text \<open>Lines 81 to 90, read from a render that held the given exercises and cursor.\<close>

definition listener_nextExercise :: "exercise list \<Rightarrow> int \<Rightarrow> state \<Rightarrow> state" where
  "listener_nextExercise held_exs held_idx st =
     (if held_idx < int (length held_exs) - 1
      then resetExerciseState (st\<lparr>currentExerciseIndex := held_idx + 1\<rparr>)
      else st\<lparr>exerciseMode := Review\<rparr>)"

text \<open>Lines 92 to 97, read from a render that held the given cursor.\<close>

definition listener_prevExercise :: "int \<Rightarrow> state \<Rightarrow> state" where
  "listener_prevExercise held_idx st =
     (if held_idx > 0
      then resetExerciseState (st\<lparr>currentExerciseIndex := held_idx - 1\<rparr>)
      else st)"

text \<open>
  The mounted component: the state of its latest render, and the exercises and the
  cursor that the registered listener reads.
\<close>

record component =
  view :: state
  held_exercises :: "exercise list"
  held_index :: int

text \<open>The first render, after which the effect registers the listener.\<close>

definition mount :: component where
  "mount =
     \<lparr>view = initial_state, held_exercises = exercises initial_state,
      held_index = currentExerciseIndex initial_state\<rparr>"

text \<open>
  The render that follows an event which left the state \<open>st\<close>: the listener is
  registered anew, from this render, exactly when the cursor has changed.
\<close>

definition rerender :: "component \<Rightarrow> state \<Rightarrow> component" where
  "rerender c st =
     (if currentExerciseIndex st = currentExerciseIndex (view c) then c\<lparr>view := st\<rparr>
      else \<lparr>view = st, held_exercises = exercises st, held_index = currentExerciseIndex st\<rparr>)"

text \<open>
  A button or the text field calls a handler of the current render: \<open>nextExercise\<close>,
  \<open>prevExercise\<close>, \<open>resetExerciseState\<close>, \<open>toggleMeaning\<close>, \<open>restartExercises\<close> or
  \<open>setUserAnswer v\<close>.
\<close>

definition click :: "(state \<Rightarrow> state) \<Rightarrow> component \<Rightarrow> component" where
  "click handler c = rerender c (handler (view c))"

text \<open>The button Check Answer (line 323) calls \<open>checkAnswer\<close> of the current render.\<close>

definition submit :: "component \<Rightarrow> error + component" where
  "submit c =
     (case checkAnswer (view c) of
        Inl e \<Rightarrow> Inl e
      | Inr st \<Rightarrow> Inr (rerender c st))"

text \<open>
  Lines 52 to 61: a chosen file is read and handed to \<open>loadData\<close>. The loader sets the
  exercises before the cursor, so a listener registered on its account holds the new
  exercises, whether its setter calls are rendered together or one by one.
\<close>

definition handleFileChange ::
  "(exercise list \<Rightarrow> exercise list) \<Rightarrow> row list \<Rightarrow> component \<Rightarrow> error + component" where
  "handleFileChange shuffle rawData c =
     (case loadData shuffle rawData (view c) of
        Inl e \<Rightarrow> Inl e
      | Inr st \<Rightarrow> Inr (rerender c st))"

text \<open>Lines 135 to 141, in the listener that is registered.\<close>

definition handleKeyDown :: "string \<Rightarrow> component \<Rightarrow> component" where
  "handleKeyDown key c =
     (if key = ''ArrowRight''
      then rerender c (listener_nextExercise (held_exercises c) (held_index c) (view c))
      else if key = ''ArrowLeft''
      then rerender c (listener_prevExercise (held_index c) (view c))
      else c)"

subsection \<open>The displayed percentage\<close>

text \<open>
  A number of the host language as far as the display needs it: \<^verbatim>\<open>NaN\<close>, the two
  infinities, or a finite double, given by its exact value. The sign of zero is not
  kept.
\<close>

datatype jsnum = NaN | Infinity | NegInfinity | Finite rat

text \<open>The integer nearest to \<open>n / d\<close> for \<open>d > 0\<close>, a tie going to the even one.\<close>

definition nearest_integer :: "int \<Rightarrow> int \<Rightarrow> int" where
  "nearest_integer n d =
     (let q = n div d; r = n mod d
      in if 2 * r < d then q
         else if d < 2 * r then q + 1
         else if even q then q else q + 1)"

text \<open>The number of binary digits of a positive integer.\<close>

function bit_length :: "int \<Rightarrow> int" where
  "bit_length n = (if n \<le> 0 then 0 else bit_length (n div 2) + 1)"
  by pat_completeness auto
termination
  by (relation "measure nat") auto

declare bit_length.simps [simp del]

text \<open>The exponent \<open>e\<close> with \<open>2 ^ e \<le> n / d < 2 ^ (e + 1)\<close>, for positive \<open>n\<close> and \<open>d\<close>.\<close>

definition exponent_of :: "int \<Rightarrow> int \<Rightarrow> int" where
  "exponent_of n d =
     (let k = bit_length n - bit_length d
      in if (if 0 \<le> k then d * 2 ^ nat k \<le> n else d \<le> n * 2 ^ nat (- k)) then k
         else k - 1)"

text \<open>
  The double that an arithmetic operation returns when its exact result is \<open>n / d\<close>, for
  positive \<open>n\<close> and \<open>d\<close>: the result is rounded to 53 significant binary digits (to fewer
  below \<open>2 ^ - 1022\<close>, where the spacing of the doubles stays \<open>2 ^ - 1074\<close>), a tie going to
  the even significand, and a rounded value of \<open>2 ^ 1024\<close> or more is
  \<^verbatim>\<open>Infinity\<close>.
\<close>

definition nearest_positive :: "int \<Rightarrow> int \<Rightarrow> jsnum" where
  "nearest_positive n d =
     (let e = exponent_of n d;
          s = (if e < - 1022 then 1074 else 52 - e);
          m = (if 0 \<le> s then nearest_integer (n * 2 ^ nat s) d
               else nearest_integer n (d * 2 ^ nat (- s)))
      in if 1024 \<le> e \<or> (e = 1023 \<and> 2 ^ 53 \<le> m) then Infinity
         else Finite (if 0 \<le> s then of_int m / 2 ^ nat s else of_int m * 2 ^ nat (- s)))"

fun negate :: "jsnum \<Rightarrow> jsnum" where
  "negate NaN = NaN"
| "negate Infinity = NegInfinity"
| "negate NegInfinity = Infinity"
| "negate (Finite x) = Finite (- x)"

definition nearest_double :: "rat \<Rightarrow> jsnum" where
  "nearest_double x =
     (let (n, d) = quotient_of x
      in if n = 0 then Finite 0
         else if n < 0 then negate (nearest_positive (- n) d)
         else nearest_positive n d)"

text \<open>
  \<^verbatim>\<open>a / b\<close> for two counts: \<^verbatim>\<open>0 / 0\<close> is \<^verbatim>\<open>NaN\<close>, \<^verbatim>\<open>a / 0\<close> is \<^verbatim>\<open>Infinity\<close> for
  \<open>a > 0\<close>, and any other quotient is rounded to a double. A count is itself a double;
  it is exact below \<open>2 ^ 53\<close>, which no session reaches.
\<close>

definition divide_counts :: "nat \<Rightarrow> nat \<Rightarrow> jsnum" where
  "divide_counts a b =
     (if b = 0 then (if a = 0 then NaN else Infinity)
      else nearest_double (of_nat a / of_nat b))"

text \<open>\<^verbatim>\<open>x * 100\<close>, rounded to a double.\<close>

fun times_100 :: "jsnum \<Rightarrow> jsnum" where
  "times_100 NaN = NaN"
| "times_100 Infinity = Infinity"
| "times_100 NegInfinity = NegInfinity"
| "times_100 (Finite x) = nearest_double (x * 100)"

text \<open>\<^verbatim>\<open>Math.round\<close>: the nearest integer, a half going up; it is exact.\<close>

fun Math_round :: "jsnum \<Rightarrow> jsnum" where
  "Math_round NaN = NaN"
| "Math_round Infinity = Infinity"
| "Math_round NegInfinity = NegInfinity"
| "Math_round (Finite x) = Finite (of_int \<lfloor>x + 1 / 2\<rfloor>)"

text \<open>Line 214, on the review card.\<close>

definition review_percent :: "score \<Rightarrow> jsnum" where
  "review_percent s = Math_round (times_100 (divide_counts (correct s) (total s)))"

text \<open>Line 342, under the current exercise.\<close>

definition active_percent :: "score \<Rightarrow> jsnum" where
  "active_percent s =
     (if total s > 0 then Math_round (times_100 (divide_counts (correct s) (total s)))
      else Finite 0)"

text \<open>The percentage on the screen; the loading notice shows none.\<close>

definition displayed_percent :: "state \<Rightarrow> jsnum option" where
  "displayed_percent st =
     (case screen_of st of
        LoadingScreen \<Rightarrow> None
      | ReviewScreen \<Rightarrow> Some (review_percent (stats st))
      | ActiveScreen \<Rightarrow> Some (active_percent (stats st)))"

subsection \<open>The question text around its first line break\<close>

text \<open>
  The two parts of a text that the specification speaks of: what stands before the first
  \<^verbatim>\<open>\r\n\<close> (the whole text when there is none) and what stands after it (nothing
  when there is none).
\<close>

fun before_first_crlf :: "string \<Rightarrow> string" where
  "before_first_crlf (c # d # cs) =
     (if c = CR \<and> d = LF then [] else c # before_first_crlf (d # cs))"
| "before_first_crlf [c] = [c]"
| "before_first_crlf [] = []"

fun after_first_crlf :: "string \<Rightarrow> string" where
  "after_first_crlf (c # d # cs) =
     (if c = CR \<and> d = LF then cs else after_first_crlf (d # cs))"
| "after_first_crlf [c] = []"
| "after_first_crlf [] = []"


text \<open>
  A question cell the parser can work on: a string, or any falsy value
  (\<^verbatim>\<open>undefined\<close>, zero, \<^verbatim>\<open>false\<close>).
\<close>

definition question_readable :: "row \<Rightarrow> bool" where
  "question_readable r =
     (case cell r 8 of
        JString q \<Rightarrow> True
      | JUndefined \<Rightarrow> True
      | JNumber n \<Rightarrow> n = 0
      | JBoolean b \<Rightarrow> \<not> b)"

subsection \<open>Sample sheets and sessions\<close>

definition header_row :: row where
  "header_row =
     [JString ''id'', JString ''topic'', JString ''pronunciation'', JString ''meaning'',
      JString ''example'', JString ''word'', JString ''blanked'', JString ''hint'',
      JString ''question'']"

definition cat_row :: row where
  "cat_row =
     [JNumber 1, JString ''pets'', JString ''kat'', JString ''a small pet'',
      JString ''The cat sleeps.'', JString ''cat'', JString ''c_t'', JString ''c'',
      JString ''The ___ sleeps.'']"

definition dog_row :: row where
  "dog_row =
     [JNumber 2, JString ''pets'', JString ''dog'', JString ''a loyal pet'',
      JString ''The dog barks.'', JString ''dog'', JString ''d_g'', JString ''d'',
      JString ''The ___ barks.'']"

text \<open>A row that ends before the word column.\<close>

definition short_row :: row where
  "short_row =
     [JNumber 3, JString ''pets'', JString ''bird'', JString ''a pet with wings'',
      JString ''The bird sings.'']"

text \<open>A row whose word cell is the empty string.\<close>

definition blank_word_row :: row where
  "blank_word_row =
     [JNumber 4, JString ''pets'', JString ''fish'', JString ''a pet in water'',
      JString ''The fish swims.'', JString [], JString ''f___'', JString ''f'',
      JString ''The ___ swims.'']"

text \<open>A row whose question cell holds a number.\<close>

definition numeric_question_row :: row where
  "numeric_question_row =
     [JNumber 5, JString ''pets'', JString ''hen'', JString ''a farm bird'',
      JString ''The hen clucks.'', JString ''hen'', JString ''h_n'', JString ''h'',
      JNumber 5]"











definition cat_exercise :: exercise where
  "cat_exercise =
     \<lparr>id_field = JNumber 1, word = JString ''cat'', hint = JString ''c'',
      sentence = JString ''The ___ sleeps.'', blankedWord = JString ''c_t'',
      meaning = JString ''a small pet'', pronunciation = JString ''kat''\<rparr>"

definition dog_exercise :: exercise where
  "dog_exercise =
     \<lparr>id_field = JNumber 2, word = JString ''dog'', hint = JString ''d'',
      sentence = JString ''The ___ barks.'', blankedWord = JString ''d_g'',
      meaning = JString ''a loyal pet'', pronunciation = JString ''dog''\<rparr>"

text \<open>The session after a sheet with nothing but its header has been loaded.\<close>

definition empty_session :: state where
  "empty_session = initial_state\<lparr>loading := False\<rparr>"

text \<open>The session after a sheet with the header and the short row has been loaded.\<close>

definition short_session :: state where
  "short_session =
     initial_state
       \<lparr>exercises :=
          [\<lparr>id_field = JNumber 3, word = JUndefined, hint = JUndefined,
            sentence = JString ''The bird sings.'', blankedWord = JUndefined,
            meaning = JString ''a pet with wings'', pronunciation = JString ''bird''\<rparr>],
        loading := False\<rparr>"

text \<open>The session after a sheet with the header and the row of the blank word.\<close>

definition blank_word_session :: state where
  "blank_word_session =
     initial_state
       \<lparr>exercises :=
          [\<lparr>id_field = JNumber 4, word = JString [], hint = JString ''f'',
            sentence = JString ''The ___ swims.'', blankedWord = JString ''f___'',
            meaning = JString ''a pet in water'', pronunciation = JString ''fish''\<rparr>],
        loading := False\<rparr>"

text \<open>The session after the sheet of the cat and the dog has been loaded.\<close>

definition pets_session :: state where
  "pets_session = initial_state\<lparr>exercises := [cat_exercise, dog_exercise], loading := False\<rparr>"

text \<open>The same session once the cat has been answered right.\<close>

definition answered_cat :: state where
  "answered_cat =
     pets_session\<lparr>userAnswer := ''CAT '', isCorrect := Some True,
       feedback := correct_feedback, stats := \<lparr>correct = 1, total = 1\<rparr>\<rparr>"

text \<open>
  The same session at its end: the cat answered right, the dog answered wrong, and the
  learner gone on past the last exercise.
\<close>

definition finished_session :: state where
  "finished_session =
     \<lparr>exercises = [cat_exercise, dog_exercise], currentExerciseIndex = 1,
      userAnswer = ''cot'', feedback = not_quite_feedback ''dog'',
      isCorrect = Some False, showMeaning = False, loading = False,
      stats = \<lparr>correct = 1, total = 2\<rparr>, exerciseMode = Review\<rparr>"

text \<open>
  The components of these sessions. After a load the cursor is 0 as before, so the
  listener is the one registered after the first render, which holds no exercise. The
  learner who answers and goes on by the buttons moves the cursor, and at the end of the
  pass the listener holds the two exercises and the cursor 1.
\<close>

definition empty_component :: component where
  "empty_component = \<lparr>view = empty_session, held_exercises = [], held_index = 0\<rparr>"

definition pets_component :: component where
  "pets_component = \<lparr>view = pets_session, held_exercises = [], held_index = 0\<rparr>"

definition finished_component :: component where
  "finished_component =
     \<lparr>view = finished_session, held_exercises = [cat_exercise, dog_exercise],
      held_index = 1\<rparr>"

section \<open>Properties\<close>

subsection \<open>The samples, evaluated\<close>

lemma normalize_samples:
  "trim (toLowerCase ''cat'') = ''cat''"
  "trim (toLowerCase ''CAT '') = ''cat''"
  "trim (toLowerCase ''dog'') = ''dog''"
  "trim (toLowerCase ''cot'') = ''cot''"
  "trim (toLowerCase ''Apple'') = ''apple''"
  "trim (toLowerCase ''  apple  '') = ''apple''"
  "trim (toLowerCase []) = []"
  "trim (toLowerCase ''  '') = []"
  by code_simp+

lemma exercisesData_pets:
  "exercisesData [header_row, cat_row, dog_row] = Inr [cat_exercise, dog_exercise]"
  by (simp add: exercisesData_def make_exercise_def derive_sentence_def cell_def
      cat_row_def dog_row_def cat_exercise_def dog_exercise_def)

lemma loadData_pets:
  "loadData (\<lambda>xs. xs) [header_row, cat_row, dog_row] initial_state = Inr pets_session"
  by (simp add: loadData_def exercisesData_pets pets_session_def initial_state_def)

lemma loadData_header_only:
  "loadData (\<lambda>xs. xs) [header_row] initial_state = Inr empty_session"
  by (simp add: loadData_def exercisesData_def empty_session_def initial_state_def)

text \<open>
  The finished session is where a run from the first load ends: the learner types
  \<^verbatim>\<open>CAT \<close> and submits, goes on, types \<^verbatim>\<open>cot\<close> and submits, and goes on
  once more.
\<close>

lemma finished_session_run:
  "checkAnswer (setUserAnswer ''CAT '' pets_session) = Inr answered_cat"
  "checkAnswer (setUserAnswer ''cot'' (nextExercise answered_cat))
     = Inr (finished_session\<lparr>exerciseMode := Normal\<rparr>)"
  "nextExercise (finished_session\<lparr>exerciseMode := Normal\<rparr>) = finished_session"
  by (simp_all add: checkAnswer_def setUserAnswer_def nextExercise_def resetExerciseState_def
      pets_session_def finished_session_def answered_cat_def initial_state_def
      currentExercise_def cat_exercise_def dog_exercise_def normalize_samples)

lemma make_exercise_pets:
  "make_exercise cat_row = Inr cat_exercise" "make_exercise dog_row = Inr dog_exercise"
  by (simp_all add: make_exercise_def derive_sentence_def cell_def
      cat_row_def dog_row_def cat_exercise_def dog_exercise_def)

lemma exercisesData_cat: "exercisesData [header_row, cat_row] = Inr [cat_exercise]"
  by (simp add: exercisesData_def make_exercise_def derive_sentence_def cell_def
      cat_row_def cat_exercise_def)

lemma exercisesData_short:
  "exercisesData [header_row, short_row] = Inr (exercises short_session)"
  "exercisesData [header_row, blank_word_row] = Inr (exercises blank_word_session)"
  by (simp_all add: exercisesData_def make_exercise_def derive_sentence_def cell_def
      short_row_def short_session_def blank_word_row_def blank_word_session_def)

subsection \<open>The key listener\<close>

text \<open>A handler of the current render is the listener's handler that holds the current values.\<close>

lemma listener_of_current_render:
  "listener_nextExercise (exercises st) (currentExerciseIndex st) st = nextExercise st"
  "listener_prevExercise (currentExerciseIndex st) st = prevExercise st"
  by (simp_all add: listener_nextExercise_def listener_prevExercise_def nextExercise_def
      prevExercise_def)

text \<open>The cursor that the listener holds is the current one, from the first render on.\<close>

lemma mount_holds_cursor: "held_index mount = currentExerciseIndex (view mount)"
  by (simp add: mount_def)



text \<open>The sample components are where the events lead from the first render.\<close>

lemma component_run:
  "handleFileChange (\<lambda>xs. xs) [header_row] mount = Inr empty_component"
  "handleFileChange (\<lambda>xs. xs) [header_row, cat_row, dog_row] mount = Inr pets_component"
  "submit (click (setUserAnswer ''CAT '') pets_component)
     = Inr (pets_component\<lparr>view := answered_cat\<rparr>)"
  "submit (click (setUserAnswer ''cot'') (click nextExercise (pets_component\<lparr>view := answered_cat\<rparr>)))
     = Inr (finished_component\<lparr>view := finished_session\<lparr>exerciseMode := Normal\<rparr>\<rparr>)"
  "click nextExercise (finished_component\<lparr>view := finished_session\<lparr>exerciseMode := Normal\<rparr>\<rparr>)
     = finished_component"
proof -
  show "handleFileChange (\<lambda>xs. xs) [header_row] mount = Inr empty_component"
    by (simp add: handleFileChange_def mount_def loadData_header_only rerender_def
        empty_component_def)
       (simp add: empty_session_def initial_state_def)
  show "handleFileChange (\<lambda>xs. xs) [header_row, cat_row, dog_row] mount = Inr pets_component"
    by (simp add: handleFileChange_def mount_def loadData_pets rerender_def
        pets_component_def)
       (simp add: pets_session_def initial_state_def)
  have v: "view (click (setUserAnswer ''CAT '') pets_component) = setUserAnswer ''CAT '' pets_session"
    "click (setUserAnswer ''CAT '') pets_component
       = pets_component\<lparr>view := setUserAnswer ''CAT '' pets_session\<rparr>"
    by (simp_all add: click_def rerender_def pets_component_def setUserAnswer_def)
  show "submit (click (setUserAnswer ''CAT '') pets_component)
     = Inr (pets_component\<lparr>view := answered_cat\<rparr>)"
    unfolding submit_def v(1) finished_session_run(1)
    by (simp add: v(2) rerender_def answered_cat_def setUserAnswer_def)
  have n: "click nextExercise (pets_component\<lparr>view := answered_cat\<rparr>)
       = finished_component\<lparr>view := nextExercise answered_cat\<rparr>"
    by (simp add: click_def rerender_def pets_component_def finished_component_def
        nextExercise_def resetExerciseState_def answered_cat_def pets_session_def
        initial_state_def)
  have t: "click (setUserAnswer ''cot'') (finished_component\<lparr>view := nextExercise answered_cat\<rparr>)
       = finished_component\<lparr>view := setUserAnswer ''cot'' (nextExercise answered_cat)\<rparr>"
    by (simp add: click_def rerender_def setUserAnswer_def)
  show "submit (click (setUserAnswer ''cot'') (click nextExercise (pets_component\<lparr>view := answered_cat\<rparr>)))
     = Inr (finished_component\<lparr>view := finished_session\<lparr>exerciseMode := Normal\<rparr>\<rparr>)"
    unfolding n t submit_def
    by (simp add: finished_session_run(2) rerender_def)
       (simp add: setUserAnswer_def nextExercise_def resetExerciseState_def answered_cat_def
         pets_session_def initial_state_def finished_session_def)
  show "click nextExercise (finished_component\<lparr>view := finished_session\<lparr>exerciseMode := Normal\<rparr>\<rparr>)
     = finished_component"
    by (simp add: click_def finished_session_run(3) rerender_def)
       (simp add: finished_session_def finished_component_def)
qed

subsection \<open>The sentence of a row\<close>




lemma first_crlf_decomposition:
  "includes_crlf s \<Longrightarrow> s = before_first_crlf s @ CR # LF # after_first_crlf s"
  by (induction s rule: includes_crlf.induct) auto

lemma includes_crlf_Cons:
  "includes_crlf (c # xs) = ((c = CR \<and> xs \<noteq> [] \<and> hd xs = LF) \<or> includes_crlf xs)"
  by (cases xs) auto

lemma hd_before_first_crlf:
  "before_first_crlf (d # cs) \<noteq> [] \<Longrightarrow> hd (before_first_crlf (d # cs)) = d"
  by (cases cs) (auto split: if_splits)

lemma before_first_crlf_no_break: "\<not> includes_crlf (before_first_crlf s)"
proof (induction s rule: before_first_crlf.induct)
  case (1 c d cs)
  show ?case
  proof (cases "c = CR \<and> d = LF")
    case True
    then show ?thesis by simp
  next
    case False
    with 1 have ih: "\<not> includes_crlf (before_first_crlf (d # cs))" by simp
    from False have "before_first_crlf (c # d # cs) = c # before_first_crlf (d # cs)"
      by auto
    moreover have "\<not> (c = CR \<and> before_first_crlf (d # cs) \<noteq> [] \<and>
        hd (before_first_crlf (d # cs)) = LF)"
      using False hd_before_first_crlf [of d cs] by auto
    ultimately show ?thesis
      using ih by (simp only: includes_crlf_Cons) simp
  qed
qed simp_all





subsection \<open>The row parser\<close>

lemma make_exercise_readable:
  "question_readable r \<Longrightarrow> \<exists>ex. make_exercise r = Inr ex"
  by (auto simp: question_readable_def make_exercise_def derive_sentence_def Let_def
      split: jsval.splits)

lemma parse_loop_rows:
  assumes "\<forall>r\<in>set rs. question_readable r"
  shows "\<exists>exs. parse_loop rs acc = Inr (acc @ exs) \<and>
           map Inr exs = map make_exercise (filter (\<lambda>r. length r \<noteq> 0) rs)"
  using assms
proof (induction rs arbitrary: acc)
  case Nil
  then show ?case by simp
next
  case (Cons r rs)
  then have rest: "\<forall>r\<in>set rs. question_readable r" by simp
  show ?case
  proof (cases "length r = 0")
    case True
    with Cons.IH [OF rest, of acc] show ?thesis by simp
  next
    case False
    from Cons.prems obtain ex where ex: "make_exercise r = Inr ex"
      using make_exercise_readable [of r] by auto
    from Cons.IH [OF rest, of "acc @ [ex]"] obtain exs where
      exs: "parse_loop rs (acc @ [ex]) = Inr ((acc @ [ex]) @ exs)"
        "map Inr exs = map make_exercise (filter (\<lambda>r. length r \<noteq> 0) rs)"
      by blast
    have "parse_loop (r # rs) acc = Inr (acc @ (ex # exs))"
      using False ex exs(1) by simp
    moreover have "map Inr (ex # exs) = map make_exercise (filter (\<lambda>r. length r \<noteq> 0) (r # rs))"
      using False ex exs(2) by simp
    ultimately show ?thesis by blast
  qed
qed

text \<open>
  Claim C7, as the code has it: for every sequence of rows in which the question cell of
  each row after the first is a string or falsy (absent, zero, false), the parser returns;
  it skips the first row and every row of zero cells, and its result holds exactly one
  exercise per remaining row, the one built from that row, in the order of the rows.
\<close>

theorem exercisesData_rows:
  assumes "\<forall>r\<in>set (drop 1 rawData). question_readable r"
  shows "\<exists>exs. exercisesData rawData = Inr exs \<and>
           length exs = length (filter (\<lambda>r. length r \<noteq> 0) (drop 1 rawData)) \<and>
           map Inr exs = map make_exercise (filter (\<lambda>r. length r \<noteq> 0) (drop 1 rawData))"
proof -
  from parse_loop_rows [OF assms, of "[]"] obtain exs where
    exs: "parse_loop (drop 1 rawData) [] = Inr exs"
      "map Inr exs = map make_exercise (filter (\<lambda>r. length r \<noteq> 0) (drop 1 rawData))"
    by auto
  from exs(2) have "length exs = length (filter (\<lambda>r. length r \<noteq> 0) (drop 1 rawData))"
    by (metis length_map)
  with exs show ?thesis by (simp add: exercisesData_def)
qed

theorem exercisesData_rows_witness:
  "question_readable cat_row \<and> question_readable [] \<and> question_readable dog_row \<and>
   exercisesData [header_row, cat_row, [], dog_row] = Inr [cat_exercise, dog_exercise] \<and>
   exercisesData [] = Inr []"
proof -
  have q: "question_readable cat_row" "question_readable []" "question_readable dog_row"
    by (simp_all add: question_readable_def cell_def cat_row_def dog_row_def)
  then have h: "\<forall>r\<in>set (drop 1 [header_row, cat_row, [], dog_row]). question_readable r"
    by simp
  have h0: "\<forall>r\<in>set (drop 1 ([] :: row list)). question_readable r"
    by simp
  have ne: "length cat_row \<noteq> 0" "length dog_row \<noteq> 0"
    by (simp_all add: cat_row_def dog_row_def)
  from exercisesData_rows [OF h] obtain exs where
    exs: "exercisesData [header_row, cat_row, [], dog_row] = Inr exs"
      "map Inr exs = map make_exercise (filter (\<lambda>r. length r \<noteq> 0) (drop 1 [header_row, cat_row, [], dog_row]))"
    by blast
  from exs(2) have "map Inr exs = [Inr cat_exercise, Inr dog_exercise :: error + exercise]"
    using ne by (simp add: make_exercise_pets)
  then have "exs = [cat_exercise, dog_exercise]"
    by (auto simp: map_eq_Cons_conv)
  with exs(1) have r1: "exercisesData [header_row, cat_row, [], dog_row] = Inr [cat_exercise, dog_exercise]"
    by simp
  from exercisesData_rows [OF h0] have r2: "exercisesData [] = Inr []"
    by simp
  from q r1 r2 show ?thesis by blast
qed

text \<open>
  The claim as stated, for every sequence of rows, fails on a row whose question cell is
  the number 5: the value is truthy and has no method \<^verbatim>\<open>includes\<close>, the call
  throws, and no exercise at all is produced.
\<close>

theorem exercisesData_numeric_question_throws:
  "length numeric_question_row \<noteq> 0 \<and>
   cell numeric_question_row 8 = JNumber 5 \<and>
   exercisesData [header_row, cat_row, numeric_question_row] = Inl TypeError \<and>
   loadData (\<lambda>xs. xs) [header_row, cat_row, numeric_question_row] initial_state = Inl TypeError"
  by (simp add: loadData_def exercisesData_def make_exercise_pets)
     (simp add: make_exercise_def derive_sentence_def cell_def numeric_question_row_def cat_row_def)

subsection \<open>Loading a sheet\<close>

text \<open>The loader writes the exercise set, the cursor and the loading flag, and nothing else.\<close>

lemma loadData_frame:
  assumes "loadData shuffle rawData st = Inr st'"
  shows "stats st' = stats st \<and> exerciseMode st' = exerciseMode st \<and>
         userAnswer st' = userAnswer st \<and> feedback st' = feedback st \<and>
         isCorrect st' = isCorrect st \<and> showMeaning st' = showMeaning st"
  using assms by (auto simp: loadData_def split: sum.splits)

text \<open>
  Claim C2 says that the loader forgets the prior set, resets the score and the attempt
  state and puts the session in active mode. In the code it replaces the set and the
  cursor only. Loading a new sheet over the finished session leaves the score at 1 of 2,
  the answer and its verdict in place and the review card on the screen, whereas
  \<open>restartExercises\<close> on the same session resets all of them.
\<close>

theorem loadData_keeps_score_and_mode:
  "loadData (\<lambda>xs. xs) [header_row, cat_row] finished_session
     = Inr (finished_session\<lparr>exercises := [cat_exercise], currentExerciseIndex := 0\<rparr>) \<and>
   stats (finished_session\<lparr>exercises := [cat_exercise], currentExerciseIndex := 0\<rparr>)
     = \<lparr>correct = 1, total = 2\<rparr> \<and>
   screen_of (finished_session\<lparr>exercises := [cat_exercise], currentExerciseIndex := 0\<rparr>)
     = ReviewScreen \<and>
   userAnswer (finished_session\<lparr>exercises := [cat_exercise], currentExerciseIndex := 0\<rparr>)
     = ''cot'' \<and>
   isCorrect (finished_session\<lparr>exercises := [cat_exercise], currentExerciseIndex := 0\<rparr>)
     = Some False \<and>
   restartExercises finished_session = initial_state"
  by (simp add: loadData_def exercisesData_cat)
     (simp add: finished_session_def screen_of_def restartExercises_def resetExerciseState_def
       initial_state_def)

subsection \<open>Submitting an answer\<close>

text \<open>
  Claim C1, as the code has it: whenever the word of the current exercise is a string,
  \<open>checkAnswer\<close> returns, the total has grown by exactly one, and the count of correct
  answers has grown by one if the trimmed lower-case answer equals the trimmed lower-case
  word and is unchanged otherwise.
\<close>

theorem checkAnswer_score:
  assumes "word (currentExercise st) = JString w"
  shows "\<exists>st'. checkAnswer st = Inr st' \<and>
           total (stats st') = total (stats st) + 1 \<and>
           (trim (toLowerCase (userAnswer st)) = trim (toLowerCase w) \<longrightarrow>
              correct (stats st') = correct (stats st) + 1 \<and> isCorrect st' = Some True) \<and>
           (trim (toLowerCase (userAnswer st)) \<noteq> trim (toLowerCase w) \<longrightarrow>
              correct (stats st') = correct (stats st) \<and> isCorrect st' = Some False)"
  using assms by (auto simp: checkAnswer_def Let_def)

text \<open>
  The word \<^verbatim>\<open>Apple\<close> with the answer \<^verbatim>\<open>  apple  \<close> counts as correct; the word
  \<^verbatim>\<open>cat\<close> with the answer \<^verbatim>\<open>cot\<close> does not.
\<close>

theorem checkAnswer_score_witness:
  "word (currentExercise
      (pets_session\<lparr>exercises := [empty_object\<lparr>word := JString ''Apple''\<rparr>],
                     userAnswer := ''  apple  ''\<rparr>)) = JString ''Apple'' \<and>
   (\<exists>st'. checkAnswer
      (pets_session\<lparr>exercises := [empty_object\<lparr>word := JString ''Apple''\<rparr>],
                     userAnswer := ''  apple  ''\<rparr>) = Inr st' \<and>
      total (stats st') = 1 \<and> correct (stats st') = 1 \<and> isCorrect st' = Some True) \<and>
   (\<exists>st'. checkAnswer (setUserAnswer ''cot'' pets_session) = Inr st' \<and>
      total (stats st') = 1 \<and> correct (stats st') = 0 \<and> isCorrect st' = Some False)"
proof -
  let ?apple = "pets_session\<lparr>exercises := [empty_object\<lparr>word := JString ''Apple''\<rparr>],
                              userAnswer := ''  apple  ''\<rparr>"
  have w1: "word (currentExercise ?apple) = JString ''Apple''"
    by (simp add: currentExercise_def pets_session_def initial_state_def)
  have w2: "word (currentExercise (setUserAnswer ''cot'' pets_session)) = JString ''cat''"
    by (simp add: currentExercise_def setUserAnswer_def pets_session_def initial_state_def
        cat_exercise_def)
  have s: "total (stats ?apple) = 0" "correct (stats ?apple) = 0"
    "userAnswer ?apple = ''  apple  ''"
    "total (stats (setUserAnswer ''cot'' pets_session)) = 0"
    "correct (stats (setUserAnswer ''cot'' pets_session)) = 0"
    "userAnswer (setUserAnswer ''cot'' pets_session) = ''cot''"
    by (simp_all add: setUserAnswer_def pets_session_def initial_state_def)
  from checkAnswer_score [OF w1] checkAnswer_score [OF w2] w1 show ?thesis
    unfolding s normalize_samples by simp
qed

text \<open>
  The claim as stated, for every session state, fails where the current exercise has no
  word: after a sheet with only its header row the set is empty, the current exercise is
  the empty object, and submitting the answer \<^verbatim>\<open>cat\<close> throws before any count
  changes.
\<close>

theorem checkAnswer_empty_set_throws:
  "loadData (\<lambda>xs. xs) [header_row] initial_state = Inr empty_session \<and>
   screen_of (setUserAnswer ''cat'' empty_session) = ActiveScreen \<and>
   checkAnswer (setUserAnswer ''cat'' empty_session) = Inl TypeError"
  by (simp add: loadData_header_only)
     (simp add: checkAnswer_def setUserAnswer_def empty_session_def initial_state_def
       currentExercise_def empty_object_def screen_of_def)

text \<open>
  Claim C3 says that submitting on an exercise whose word is empty or undefined raises
  nothing and marks the answer incorrect. In the code a row that ends before the word
  column gives an exercise whose word is \<^verbatim>\<open>undefined\<close>, and submitting any answer
  on it throws a TypeError; a row whose word is the empty string gives an exercise on
  which an answer of two spaces is marked correct.
\<close>

theorem checkAnswer_missing_word:
  "loadData (\<lambda>xs. xs) [header_row, short_row] initial_state = Inr short_session \<and>
   word (currentExercise short_session) = JUndefined \<and>
   checkAnswer (setUserAnswer ''bird'' short_session) = Inl TypeError \<and>
   loadData (\<lambda>xs. xs) [header_row, blank_word_row] initial_state = Inr blank_word_session \<and>
   word (currentExercise blank_word_session) = JString [] \<and>
   checkAnswer (setUserAnswer ''  '' blank_word_session)
     = Inr (blank_word_session\<lparr>userAnswer := ''  '', isCorrect := Some True,
              feedback := correct_feedback, stats := \<lparr>correct = 1, total = 1\<rparr>\<rparr>)"
  by (simp add: loadData_def exercisesData_short)
     (simp add: short_session_def blank_word_session_def initial_state_def checkAnswer_def
       setUserAnswer_def currentExercise_def normalize_samples)

subsection \<open>Going on to the next exercise\<close>

text \<open>
  The button Next Exercise calls \<open>nextExercise\<close> of the current render. In a session that
  shows an exercise (not loading, mode normal) with a non-empty exercise set, the call at
  the last index turns the mode to review and changes nothing else, so cursor and score
  stay; below the last index it adds one to the cursor and resets the attempt state,
  leaving score and exercise set alone.
\<close>

lemma nextExercise_active:
  assumes "screen_of st = ActiveScreen" and "exercises st \<noteq> []"
  shows "(currentExerciseIndex st = int (length (exercises st)) - 1 \<longrightarrow>
            nextExercise st = st\<lparr>exerciseMode := Review\<rparr> \<and>
            screen_of (nextExercise st) = ReviewScreen \<and>
            currentExerciseIndex (nextExercise st) = currentExerciseIndex st \<and>
            stats (nextExercise st) = stats st) \<and>
         (currentExerciseIndex st < int (length (exercises st)) - 1 \<longrightarrow>
            currentExerciseIndex (nextExercise st) = currentExerciseIndex st + 1 \<and>
            userAnswer (nextExercise st) = [] \<and>
            isCorrect (nextExercise st) = None \<and>
            feedback (nextExercise st) = [] \<and>
            showMeaning (nextExercise st) = False \<and>
            screen_of (nextExercise st) = ActiveScreen \<and>
            stats (nextExercise st) = stats st \<and>
            exercises (nextExercise st) = exercises st)"
  using assms
  by (auto simp: nextExercise_def resetExerciseState_def screen_of_def split: if_splits)

lemma nextExercise_active_samples:
  "screen_of answered_cat = ActiveScreen \<and> exercises answered_cat \<noteq> [] \<and>
   currentExerciseIndex answered_cat < int (length (exercises answered_cat)) - 1 \<and>
   currentExerciseIndex (nextExercise answered_cat) = 1 \<and>
   userAnswer (nextExercise answered_cat) = [] \<and>
   isCorrect (nextExercise answered_cat) = None \<and>
   feedback (nextExercise answered_cat) = [] \<and>
   stats (nextExercise answered_cat) = \<lparr>correct = 1, total = 1\<rparr> \<and>
   screen_of (finished_session\<lparr>exerciseMode := Normal\<rparr>) = ActiveScreen \<and>
   exercises (finished_session\<lparr>exerciseMode := Normal\<rparr>) \<noteq> [] \<and>
   currentExerciseIndex (finished_session\<lparr>exerciseMode := Normal\<rparr>)
     = int (length (exercises (finished_session\<lparr>exerciseMode := Normal\<rparr>))) - 1 \<and>
   screen_of (nextExercise (finished_session\<lparr>exerciseMode := Normal\<rparr>)) = ReviewScreen \<and>
   currentExerciseIndex (nextExercise (finished_session\<lparr>exerciseMode := Normal\<rparr>)) = 1 \<and>
   stats (nextExercise (finished_session\<lparr>exerciseMode := Normal\<rparr>)) = \<lparr>correct = 1, total = 2\<rparr>"
proof -
  let ?last = "finished_session\<lparr>exerciseMode := Normal\<rparr>"
  have a: "screen_of answered_cat = ActiveScreen" "exercises answered_cat \<noteq> []"
    "currentExerciseIndex answered_cat < int (length (exercises answered_cat)) - 1"
    by (simp_all add: answered_cat_def pets_session_def initial_state_def screen_of_def)
  have a': "currentExerciseIndex answered_cat = 0"
    "stats answered_cat = \<lparr>correct = 1, total = 1\<rparr>"
    by (simp_all add: answered_cat_def pets_session_def initial_state_def)
  have b: "screen_of ?last = ActiveScreen" "exercises ?last \<noteq> []"
    "currentExerciseIndex ?last = int (length (exercises ?last)) - 1"
    by (simp_all add: finished_session_def screen_of_def)
  have b': "currentExerciseIndex ?last = 1" "stats ?last = \<lparr>correct = 1, total = 2\<rparr>"
    by (simp_all add: finished_session_def)
  from nextExercise_active [OF a(1) a(2)] a(3)
  have r1: "currentExerciseIndex (nextExercise answered_cat) = 1"
    "userAnswer (nextExercise answered_cat) = []"
    "isCorrect (nextExercise answered_cat) = None"
    "feedback (nextExercise answered_cat) = []"
    "stats (nextExercise answered_cat) = \<lparr>correct = 1, total = 1\<rparr>"
    unfolding a' by simp_all
  from nextExercise_active [OF b(1) b(2)] b(3)
  have r2: "screen_of (nextExercise ?last) = ReviewScreen"
    "currentExerciseIndex (nextExercise ?last) = 1"
    "stats (nextExercise ?last) = \<lparr>correct = 1, total = 2\<rparr>"
    unfolding b' by blast+
  from a b r1 r2 show ?thesis by blast
qed

text \<open>
  Claim C8 says that next() below the last index of a non-empty set adds one to the
  cursor and resets the attempt state. The right arrow key is one way to call it, and
  after a load its listener still holds the empty exercise list of the first render:
  with the cat and the dog loaded and the cursor at 0, the key turns the mode to review
  and leaves the cursor at 0, where the button moves the cursor to 1.
\<close>

theorem arrow_right_after_load:
  "handleFileChange (\<lambda>xs. xs) [header_row, cat_row, dog_row] mount = Inr pets_component \<and>
   screen_of (view pets_component) = ActiveScreen \<and>
   exercises (view pets_component) = [cat_exercise, dog_exercise] \<and>
   currentExerciseIndex (view pets_component) = 0 \<and>
   screen_of (view (handleKeyDown ''ArrowRight'' pets_component)) = ReviewScreen \<and>
   currentExerciseIndex (view (handleKeyDown ''ArrowRight'' pets_component)) = 0 \<and>
   screen_of (view (click nextExercise pets_component)) = ActiveScreen \<and>
   currentExerciseIndex (view (click nextExercise pets_component)) = 1"
  by (simp add: component_run)
     (simp add: handleKeyDown_def click_def rerender_def listener_nextExercise_def
       nextExercise_def resetExerciseState_def pets_component_def pets_session_def
       initial_state_def screen_of_def)

subsection \<open>Navigation in review mode\<close>




subsection \<open>Retrying and reading the current exercise\<close>

text \<open>
  Claim C9: \<open>resetExerciseState\<close> sets the answer to the empty string, \<open>isCorrect\<close> to
  unknown, the feedback to the empty string and \<open>showMeaning\<close> to false, and leaves the
  cursor, the score, the exercise set and the mode (with the loading flag) as they were.
\<close>

theorem resetExerciseState_frame:
  "userAnswer (resetExerciseState st) = [] \<and>
   isCorrect (resetExerciseState st) = None \<and>
   feedback (resetExerciseState st) = [] \<and>
   showMeaning (resetExerciseState st) = False \<and>
   currentExerciseIndex (resetExerciseState st) = currentExerciseIndex st \<and>
   stats (resetExerciseState st) = stats st \<and>
   exercises (resetExerciseState st) = exercises st \<and>
   exerciseMode (resetExerciseState st) = exerciseMode st \<and>
   loading (resetExerciseState st) = loading st \<and>
   screen_of (resetExerciseState st) = screen_of st"
  by (simp add: resetExerciseState_def screen_of_def)

text \<open>
  Claim C10: for a cursor out of the range of the exercise set (below zero, or at or
  past its length, so any cursor when the set is empty), reading the current exercise
  gives the empty object, each of whose fields reads as \<^verbatim>\<open>undefined\<close>; the read is
  total and raises nothing.
\<close>

theorem currentExercise_out_of_range:
  assumes "currentExerciseIndex st < 0 \<or> int (length (exercises st)) \<le> currentExerciseIndex st"
  shows "currentExercise st = empty_object \<and>
         word (currentExercise st) = JUndefined \<and>
         hint (currentExercise st) = JUndefined \<and>
         sentence (currentExercise st) = JUndefined \<and>
         meaning (currentExercise st) = JUndefined \<and>
         pronunciation (currentExercise st) = JUndefined \<and>
         blankedWord (currentExercise st) = JUndefined"
proof -
  from assms have "currentExercise st = empty_object"
    by (auto simp: currentExercise_def Let_def)
  then show ?thesis
    by (simp add: empty_object_def)
qed

theorem currentExercise_out_of_range_witness:
  "(currentExerciseIndex empty_session < 0 \<or>
      int (length (exercises empty_session)) \<le> currentExerciseIndex empty_session) \<and>
   word (currentExercise empty_session) = JUndefined \<and>
   sentence (currentExercise (pets_session\<lparr>currentExerciseIndex := 2\<rparr>)) = JUndefined \<and>
   hint (currentExercise (pets_session\<lparr>currentExerciseIndex := - 1\<rparr>)) = JUndefined"
proof -
  have h0: "currentExerciseIndex empty_session < 0 \<or>
      int (length (exercises empty_session)) \<le> currentExerciseIndex empty_session"
    by (simp add: empty_session_def initial_state_def)
  have h2: "currentExerciseIndex (pets_session\<lparr>currentExerciseIndex := 2\<rparr>) < 0 \<or>
      int (length (exercises (pets_session\<lparr>currentExerciseIndex := 2\<rparr>)))
        \<le> currentExerciseIndex (pets_session\<lparr>currentExerciseIndex := 2\<rparr>)"
    by (simp add: pets_session_def initial_state_def)
  have h3: "currentExerciseIndex (pets_session\<lparr>currentExerciseIndex := - 1\<rparr>) < 0 \<or>
      int (length (exercises (pets_session\<lparr>currentExerciseIndex := - 1\<rparr>)))
        \<le> currentExerciseIndex (pets_session\<lparr>currentExerciseIndex := - 1\<rparr>)"
    by simp
  from h0 currentExercise_out_of_range [OF h0] currentExercise_out_of_range [OF h2]
    currentExercise_out_of_range [OF h3]
  show ?thesis by blast
qed

subsection \<open>The displayed percentage\<close>

text \<open>
  The rounding to a double rests on the binary exponent of the exact result and on the
  nearest integer of a quotient; both are what their names say.
\<close>

lemma bit_length_nonneg: "0 \<le> bit_length n"
  by (induction n rule: bit_length.induct) (subst bit_length.simps, simp)

lemma bit_length_bounds:
  "0 < n \<Longrightarrow> 2 ^ nat (bit_length n - 1) \<le> n \<and> n < 2 ^ nat (bit_length n)"
proof (induction n rule: bit_length.induct)
  case (1 n)
  show ?case
  proof (cases "n = 1")
    case True
    then show ?thesis
      by (simp add: bit_length.simps [of 1] bit_length.simps [of 0])
  next
    case False
    with "1.prems" have h: "0 < n div 2" "\<not> n \<le> 0" by auto
    from "1.IH" [OF h(2) h(1)]
    have ih: "2 ^ nat (bit_length (n div 2) - 1) \<le> n div 2"
      "n div 2 < 2 ^ nat (bit_length (n div 2))" by auto
    have pos: "0 < bit_length (n div 2)"
      using h(1) bit_length_nonneg [of "n div 2 div 2"]
      by (subst bit_length.simps) simp
    have eq: "bit_length n = bit_length (n div 2) + 1"
      using h(2) by (subst bit_length.simps) simp
    have n1: "nat (bit_length n - 1) = Suc (nat (bit_length (n div 2) - 1))"
      using pos unfolding eq by simp
    have n2: "nat (bit_length n) = Suc (nat (bit_length (n div 2)))"
      using pos unfolding eq by simp
    from ih show ?thesis unfolding n1 n2 power_Suc by linarith
  qed
qed

lemma bit_length_powi:
  assumes "0 < n"
  shows "(2::rat) powi (bit_length n - 1) \<le> of_int n" "(of_int n :: rat) < 2 powi bit_length n"
proof -
  from bit_length_bounds [OF assms]
  have b: "2 ^ nat (bit_length n - 1) \<le> n" "n < 2 ^ nat (bit_length n)" by auto
  have pos: "0 < bit_length n"
    using assms bit_length_nonneg [of "n div 2"] by (subst bit_length.simps) simp
  from b(1) have "(of_int (2 ^ nat (bit_length n - 1)) :: rat) \<le> of_int n"
    by (simp only: of_int_le_iff)
  then show "(2::rat) powi (bit_length n - 1) \<le> of_int n"
    using pos by (simp add: power_int_def)
  from b(2) have "(of_int n :: rat) < of_int (2 ^ nat (bit_length n))"
    by (simp only: of_int_less_iff)
  then show "(of_int n :: rat) < 2 powi bit_length n"
    using pos by (simp add: power_int_def)
qed

lemma exponent_test:
  assumes "0 < n" and "0 < d"
  shows "(if 0 \<le> k then d * 2 ^ nat k \<le> n else d \<le> n * 2 ^ nat (- k))
           = ((2::rat) powi k \<le> of_int n / of_int d)"
proof (cases "0 \<le> k")
  case True
  have "(d * 2 ^ nat k \<le> n) = ((of_int (d * 2 ^ nat k) :: rat) \<le> of_int n)"
    by (simp only: of_int_le_iff)
  also have "\<dots> = ((2::rat) ^ nat k \<le> of_int n / of_int d)"
    using assms by (simp add: field_simps)
  finally show ?thesis using True by (simp add: power_int_def)
next
  case False
  have "(d \<le> n * 2 ^ nat (- k)) = ((of_int d :: rat) \<le> of_int (n * 2 ^ nat (- k)))"
    by (simp only: of_int_le_iff)
  also have "\<dots> = (1 / (2::rat) ^ nat (- k) \<le> of_int n / of_int d)"
    using assms by (simp add: field_simps)
  finally show ?thesis using False by (simp add: power_int_def field_simps)
qed

text \<open>The exponent found is the binary exponent of the quotient.\<close>

lemma exponent_of_bounds:
  assumes "0 < n" and "0 < d"
  shows "(2::rat) powi exponent_of n d \<le> of_int n / of_int d"
    and "of_int n / of_int d < (2::rat) powi (exponent_of n d + 1)"
proof -
  let ?k = "bit_length n - bit_length d"
  let ?q = "of_int n / of_int d :: rat"
  have dpos: "(0::rat) < of_int d" using assms by simp
  have npos: "(0::rat) < of_int n" using assms by simp
  have lo: "(2::rat) powi (?k - 1) \<le> ?q"
  proof -
    have "(2::rat) powi (?k - 1) = 2 powi (bit_length n - 1) / 2 powi bit_length d"
      by (simp add: power_int_diff)
    also have "\<dots> \<le> of_int n / 2 powi bit_length d"
      using bit_length_powi(1) [OF assms(1)] by (simp add: divide_right_mono)
    also have "\<dots> \<le> ?q"
      using bit_length_powi(2) [OF assms(2)] npos dpos
      by (intro divide_left_mono) (auto simp: less_imp_le)
    finally show ?thesis .
  qed
  have hi: "?q < (2::rat) powi (?k + 1)"
  proof -
    have "?q < 2 powi bit_length n / of_int d"
      using bit_length_powi(2) [OF assms(1)] dpos by (simp add: divide_strict_right_mono)
    also have "\<dots> \<le> 2 powi bit_length n / 2 powi (bit_length d - 1)"
      using bit_length_powi(1) [OF assms(2)] dpos
      by (intro divide_left_mono) (auto simp: less_imp_le)
    also have "\<dots> = (2::rat) powi (?k + 1)"
      by (simp add: power_int_diff power_int_add)
    finally show ?thesis .
  qed
  have e: "exponent_of n d = (if (2::rat) powi ?k \<le> ?q then ?k else ?k - 1)"
    unfolding exponent_of_def Let_def exponent_test [OF assms] ..
  show "(2::rat) powi exponent_of n d \<le> ?q"
    using lo unfolding e by simp
  show "?q < (2::rat) powi (exponent_of n d + 1)"
    using hi unfolding e by (auto simp: not_le)
qed


text \<open>The nearest integer is within a half of the quotient.\<close>

lemma nearest_integer_close:
  assumes "0 < d"
  shows "\<bar>of_int n / of_int d - (of_int (nearest_integer n d) :: rat)\<bar> \<le> 1 / 2"
proof -
  let ?q = "n div d" and ?r = "n mod d"
  have n: "n = d * ?q + ?r" by simp
  have r: "0 \<le> ?r" "?r < d" using assms by simp_all
  have dpos: "(0::rat) < of_int d" using assms by simp
  have frac: "(of_int n / of_int d :: rat) = of_int ?q + of_int ?r / of_int d"
  proof -
    have "(of_int n :: rat) = of_int d * of_int ?q + of_int ?r"
      by (metis n of_int_add of_int_mult)
    then show ?thesis using dpos by (simp add: field_simps)
  qed
  have r0: "(0::rat) \<le> of_int ?r / of_int d" using r(1) dpos by simp
  have r1: "(of_int ?r / of_int d :: rat) < 1" using r(2) dpos by simp
  show ?thesis
  proof (cases "2 * ?r < d")
    case True
    then have "(of_int (2 * ?r) :: rat) < of_int d" by (simp only: of_int_less_iff)
    then have "(of_int ?r / of_int d :: rat) < 1 / 2" using dpos by (simp add: field_simps)
    moreover have "nearest_integer n d = ?q" using True by (simp add: nearest_integer_def)
    ultimately show ?thesis using r0 unfolding frac by simp
  next
    case False
    show ?thesis
    proof (cases "d < 2 * ?r")
      case True
      then have "(of_int d :: rat) < of_int (2 * ?r)" by (simp only: of_int_less_iff)
      then have "1 / 2 < (of_int ?r / of_int d :: rat)" using dpos by (simp add: field_simps)
      moreover have "nearest_integer n d = ?q + 1"
        using True False by (simp add: nearest_integer_def Let_def)
      ultimately show ?thesis using r1 unfolding frac by simp
    next
      case F2: False
      with False have "d = 2 * ?r" by simp
      then have "(of_int d :: rat) = of_int (2 * ?r)" by (simp only: of_int_eq_iff)
      then have h: "(of_int ?r / of_int d :: rat) = 1 / 2" using dpos by (simp add: field_simps)
      have "nearest_integer n d = ?q \<or> nearest_integer n d = ?q + 1"
        by (simp add: nearest_integer_def Let_def)
      then show ?thesis unfolding frac h by auto
    qed
  qed
qed

text \<open>
  Percentages of some scores: 23 of 40 is shown as 57, since the quotient times 100 is a
  double just below 57.5.
\<close>

lemma percent_samples:
  "review_percent \<lparr>correct = 1, total = 2\<rparr> = Finite 50"
  "review_percent \<lparr>correct = 1, total = 3\<rparr> = Finite 33"
  "review_percent \<lparr>correct = 2, total = 3\<rparr> = Finite 67"
  "review_percent \<lparr>correct = 3, total = 8\<rparr> = Finite 38"
  "review_percent \<lparr>correct = 23, total = 40\<rparr> = Finite 57"
  "active_percent \<lparr>correct = 23, total = 40\<rparr> = Finite 57"
  "review_percent \<lparr>correct = 2, total = 2\<rparr> = Finite 100"
  by code_simp+

text \<open>
  Claim C6 says that with a total of 0 every displayed percentage is 0. The line under
  the current exercise guards the division and shows 0; the review card does not. After
  a sheet with only its header row the set is empty; the right arrow key then leads to
  the review card with a total of 0, and the percentage there is \<^verbatim>\<open>NaN\<close>.
\<close>

theorem review_percent_without_answers:
  "loadData (\<lambda>xs. xs) [header_row] initial_state = Inr empty_session \<and>
   handleFileChange (\<lambda>xs. xs) [header_row] mount = Inr empty_component \<and>
   view empty_component = empty_session \<and>
   displayed_percent empty_session = Some (Finite 0) \<and>
   screen_of (view (handleKeyDown ''ArrowRight'' empty_component)) = ReviewScreen \<and>
   displayed_percent (view (handleKeyDown ''ArrowRight'' empty_component)) = Some NaN"
  by (simp add: loadData_header_only component_run)
     (simp add: empty_component_def empty_session_def initial_state_def handleKeyDown_def
       rerender_def listener_nextExercise_def screen_of_def displayed_percent_def
       review_percent_def active_percent_def divide_counts_def)

end
